theory Spec2Isabelle
  imports Main "HOL-Library.Sublist" "HOL-Library.Word"
begin

section \<open>Python strings\<close>

text \<open>
  A Python \<open>str\<close> is a sequence of code points. It is modelled as a \<open>string\<close> whose
  characters are the code points U+0000 to U+00FF; on that range \<open>str.isspace\<close> and
  \<open>str.lower\<close> are the two tables below, and \<open>str.lower\<close> works character by
  character.
\<close>

definition isspace :: "char \<Rightarrow> bool" where
  "isspace c = (let n = (of_char c :: nat) in
     (9 \<le> n \<and> n \<le> 13) \<or> (28 \<le> n \<and> n \<le> 32) \<or> n = 133 \<or> n = 160)"

text \<open>\<open>s.strip()\<close>: leading and trailing whitespace removed.\<close>

definition strip :: "string \<Rightarrow> string" where
  "strip s = rev (dropWhile isspace (rev (dropWhile isspace s)))"

definition lower_char :: "char \<Rightarrow> char" where
  "lower_char c = (let n = (of_char c :: nat) in
     if (65 \<le> n \<and> n \<le> 90) \<or> (192 \<le> n \<and> n \<le> 222 \<and> n \<noteq> 215)
     then char_of (n + 32) else c)"

text \<open>\<open>s.lower()\<close>.\<close>

definition lower :: "string \<Rightarrow> string" where
  "lower s = map lower_char s"

text \<open>\<open>pat in s\<close> on two strings: \<open>pat\<close> occurs in \<open>s\<close> as a contiguous run.\<close>

fun str_in :: "string \<Rightarrow> string \<Rightarrow> bool" where
  "str_in pat [] = (pat = [])"
| "str_in pat (c # s) = (prefix pat (c # s) \<or> str_in pat s)"

section \<open>Values, faults and the remote model\<close>

text \<open>
  A decoded \<open>PIL.Image.Image\<close>. The program never looks inside it; mode, size and pixel
  data are kept so that distinct images are distinct values.
\<close>

datatype image = Image (im_mode: string) (im_size: "nat \<times> nat") (im_data: "8 word list")

text \<open>The Python values that can reach \<open>analyze_content\<close> as \<open>content_input\<close>.\<close>

datatype pyval =
    is_str: PyStr string
  | is_Image: PyImage image
  | PyNone
  | PyBool bool
  | PyInt int
  | PyBytes "8 word list"
  | PyList "pyval list"

text \<open>
  What a raised object is to an \<open>except Exception\<close> clause: an instance of
  \<open>Exception\<close>, which the clause catches, or a \<open>BaseException\<close> outside that class
  (\<open>KeyboardInterrupt\<close>, \<open>SystemExit\<close>), which passes through. The string is \<open>str(e)\<close>.
\<close>

datatype raised = Exception string | BaseOnly string

datatype 'a outcome = Returns 'a | Raises raised

text \<open>
  The two module-level handles. They are two objects; \<open>configured\<close> gives the
  arguments each was constructed with.
\<close>

datatype endpoint = vision_model | text_model

record client =
  model_name :: string

definition GenerativeModel :: "string \<Rightarrow> client" where
  "GenerativeModel name = \<lparr>model_name = name\<rparr>"

fun configured :: "endpoint \<Rightarrow> client" where
  "configured vision_model = GenerativeModel ''gemini-1.5-flash''"
| "configured text_model = GenerativeModel ''gemini-1.5-flash''"

text \<open>
  One \<open>generate_content\<close> call: the positional argument and the \<open>stream\<close> keyword
  (\<open>None\<close> when the call does not pass it).
\<close>

record request =
  contents :: "pyval list"
  stream :: "bool option"

text \<open>The response object: what \<open>response.resolve()\<close> and \<open>response.text\<close> do.\<close>

record response =
  resolve :: "unit outcome"
  text_of :: "string outcome"

text \<open>
  Everything outside the program: the remote service behind both handles and the image
  decoder \<open>Image.open\<close>.
\<close>

record env =
  generate_content :: "endpoint \<Rightarrow> request \<Rightarrow> response outcome"
  Image_open :: "8 word list \<Rightarrow> image outcome"

section \<open>The page and the process state\<close>

datatype element = Empty | Info string | Warning string | Error string | Markdown string

record download =
  label :: string
  data :: string
  file_name :: string
  mime :: string

record world =
  calls :: "(endpoint \<times> request) list"
  stdout :: "string list"
  results_area :: element
  expander :: "(pyval \<times> string) option"
  download_button :: "download option"

section \<open>analyze\_content\<close>

text \<open>The body of the \<open>try\<close> block.\<close>

fun try_body :: "env \<Rightarrow> string \<Rightarrow> pyval \<Rightarrow> world \<Rightarrow> string outcome \<times> world" where
  "try_body e prompt (PyStr content_input) w =
     (if strip content_input = [] then
        (Returns ''Error: Please provide some text to analyze.'', w)
      else
        let model_input = \<lparr>contents = [PyStr prompt, PyStr content_input], stream = None\<rparr>;
            w1 = w\<lparr>calls := calls w @ [(text_model, model_input)]\<rparr>
        in case generate_content e text_model model_input of
             Raises x \<Rightarrow> (Raises x, w1)
           | Returns r \<Rightarrow> (text_of r, w1))"
| "try_body e prompt (PyImage content_input) w =
     (let model_input = \<lparr>contents = [PyStr prompt, PyImage content_input], stream = Some False\<rparr>;
          w1 = w\<lparr>calls := calls w @ [(vision_model, model_input)]\<rparr>
      in case generate_content e vision_model model_input of
           Raises x \<Rightarrow> (Raises x, w1)
         | Returns r \<Rightarrow>
             (case resolve r of
                Raises x \<Rightarrow> (Raises x, w1)
              | Returns u \<Rightarrow> (text_of r, w1)))"
| "try_body e prompt other w =
     (Returns ''Error: Invalid input type provided.'', w)"

text \<open>The \<open>except\<close> clause: \<open>error_message\<close> from \<open>str(e)\<close>.\<close>

definition error_message :: "string \<Rightarrow> string" where
  \<open>error_message str_e =
     (let msg = ''An error occurred during analysis: '' @ str_e in
      if str_in ''API key not valid'' str_e then
        msg @ ''
Please check if your GOOGLE_API_KEY is configured correctly.''
      else if str_in ''content has been blocked'' (lower str_e)
              \<or> str_in ''safety settings'' (lower str_e) then
        msg @ ''
The input may have triggered Google's safety filters.''
      else if str_in ''Resource has been exhausted'' str_e \<or> str_in ''quota'' (lower str_e) then
        msg @ ''
API quota likely exceeded. Check your usage limits.''
      else if str_in ''Deadline exceeded'' str_e then
        msg @ ''
The request timed out. Try again later.''
      else msg)\<close>

definition analyze_content :: "env \<Rightarrow> string \<Rightarrow> pyval \<Rightarrow> world \<Rightarrow> string outcome \<times> world" where
  "analyze_content e prompt content_input w =
     (case try_body e prompt content_input w of
        (Returns t, w1) \<Rightarrow> (Returns t, w1)
      | (Raises (Exception str_e), w1) \<Rightarrow>
          (Returns (''Error during analysis. Details: '' @ error_message str_e),
           w1\<lparr>stdout := stdout w1 @ [''Gemini API Error: '' @ str_e]\<rparr>)
      | (Raises (BaseOnly str_e), w1) \<Rightarrow> (Raises (BaseOnly str_e), w1))"

section \<open>The page script\<close>

definition SDG9_PROMPT :: string where
  \<open>SDG9_PROMPT = ''
You are an AI assistant specialized in analyzing violations of Sustainable Development Goal 9 (Industry, Innovation, and Infrastructure), focusing specifically on signs of unfair or unsustainable industrial practices based only on the provided input (text description or image).

Analyze the provided input:
1. Identify any visual or described elements that might indicate issues related to SDG 9, such as(what given below are only examples, you can bring any element you find, so consuder everything profoundly ):
   * Unsustainable Industrialization: Excessive smoke/pollution, improper waste disposal, environmental damage (e.g., polluted water, deforestation near factories).
   * Lack of Resilient Infrastructure: Visibly unsafe factory buildings, damaged infrastructure caused by industrial activity.
   * Non-Inclusive/Unfair Labor Practices (Visual Cues): Lack of safety equipment, signs of child labor, overcrowded or unsafe environments.
   * Technological Gaps: Outdated, poorly maintained, or highly polluting machinery.
2. Explain your reasoning for each identified element, linking it to SDG 9 concerns, profoundly and precisely in the narrative of UN and SDG literature, as if you are an officer of the UN. Acknowledge ONLY and only if input provides limited evidence or if interpretations are uncertain.
3. If no clear indicators are found, state that clearly.

4. (show Analysis Report instead of conclusion)"Analysis Report": If it violates SDG 9, then in the very first sentence, state it starting with "YES" (If you have too much uncertainties due to too much limited evidence on the input say Maybe YES type of things); if it doesn't, then state it starting with "NO". Make very strong, definitive judgments, as if the judgment is universal. (Focus on indicators which are violating SDG 9 and be very acute in your observation.)
''\<close>

text \<open>What the widgets hold when the script runs.\<close>

record submission =
  analyze_button :: bool
  input_text :: string
  uploaded_image :: "8 word list option"

text \<open>
  How a run of the script ends: at its last line, at \<open>st.stop()\<close>, or with a raised
  object that nothing catches.
\<close>

datatype ending = Finished | Stopped | Aborted raised

text \<open>The truth value of \<open>if x:\<close>. A PIL image defines neither \<open>__bool__\<close> nor \<open>__len__\<close>.\<close>

fun truthy :: "pyval \<Rightarrow> bool" where
  "truthy (PyStr s) = (s \<noteq> [])"
| "truthy (PyImage i) = True"
| "truthy PyNone = False"
| "truthy (PyBool b) = b"
| "truthy (PyInt n) = (n \<noteq> 0)"
| "truthy (PyBytes b) = (b \<noteq> [])"
| "truthy (PyList l) = (l \<noteq> [])"

text \<open>
  The choice of \<open>analysis_input\<close> and \<open>input_type\<close>, uploaded image first. \<open>Inl\<close> is a
  run that ends here.
\<close>

definition select_input ::
  "env \<Rightarrow> submission \<Rightarrow> world \<Rightarrow> (ending + pyval \<times> string option) \<times> world" where
  "select_input e sub w =
     (case uploaded_image sub of
        Some image_bytes \<Rightarrow>
          (case Image_open e image_bytes of
             Returns img \<Rightarrow>
               (Inr (PyImage img, Some ''image''),
                w\<lparr>results_area := Info ''Analyzing uploaded image... Please wait.''\<rparr>)
           | Raises (Exception str_e) \<Rightarrow>
               (Inl Stopped, w\<lparr>results_area := Error (''Error processing image: '' @ str_e)\<rparr>)
           | Raises (BaseOnly str_e) \<Rightarrow> (Inl (Aborted (BaseOnly str_e)), w))
      | None \<Rightarrow>
          if strip (input_text sub) \<noteq> [] then
            (Inr (PyStr (input_text sub), Some ''text''),
             w\<lparr>results_area := Info ''Analyzing text description... Please wait.''\<rparr>)
          else
            (Inl Stopped,
             w\<lparr>results_area := Warning ''Please enter text or upload an image for analysis.''\<rparr>))"

text \<open>
  The analysis area of the script, from \<open>results_area = st.empty()\<close> to the end of the
  file. The page is drawn anew on every run; the calls made and the lines printed stay.
\<close>

definition analyze_button_handler :: "env \<Rightarrow> submission \<Rightarrow> world \<Rightarrow> ending \<times> world" where
  \<open>analyze_button_handler e sub w =
     (let w0 = w\<lparr>results_area := Empty, expander := None, download_button := None\<rparr> in
      if analyze_button sub then
        case select_input e sub w0 of
          (Inl halt, w1) \<Rightarrow> (halt, w1)
        | (Inr (analysis_input, input_type), w1) \<Rightarrow>
            if truthy analysis_input then
              case analyze_content e SDG9_PROMPT analysis_input w1 of
                (Raises x, w2) \<Rightarrow> (Aborted x, w2)
              | (Returns analysis_result, w2) \<Rightarrow>
                  let w3 = w2\<lparr>results_area := Markdown analysis_result\<rparr>;
                      w4 = (if input_type = Some ''image'' \<and> truthy analysis_input
                            then w3\<lparr>expander := Some (analysis_input, ''Analyzed Image'')\<rparr>
                            else w3)
                  in (Finished,
                      w4\<lparr>download_button := Some
                         \<lparr>label = ''Download Analysis Result'', data = analysis_result,
                          file_name = ''analysis_result.txt'', mime = ''text/plain''\<rparr>\<rparr>)
            else (Finished, w1)
      else
        (Finished,
         w0\<lparr>results_area := Info ''Enter text or upload an image and click 'Analyze Input'.''\<rparr>))\<close>

section \<open>The hint selection as the specification words it\<close>

text \<open>
  The specification describes the choice of hint as a case-insensitive substring match for
  all four patterns. \<open>claimed_hint\<close> follows those words, for comparison with
  \<open>error_message\<close>.
\<close>

definition icontains :: "string \<Rightarrow> string \<Rightarrow> bool" where
  "icontains pat s = sublist (lower pat) (lower s)"

definition claimed_hint :: "string \<Rightarrow> string" where
  \<open>claimed_hint str_e =
     (if icontains ''api key not valid'' str_e then
        ''
Please check if your GOOGLE_API_KEY is configured correctly.''
      else if icontains ''content has been blocked'' str_e \<or> icontains ''safety settings'' str_e then
        ''
The input may have triggered Google's safety filters.''
      else if icontains ''resource has been exhausted'' str_e \<or> icontains ''quota'' str_e then
        ''
API quota likely exceeded. Check your usage limits.''
      else if icontains ''deadline exceeded'' str_e then
        ''
The request timed out. Try again later.''
      else [])\<close>

section \<open>Sample environments and inputs\<close>

definition fresh :: world where
  "fresh = \<lparr>calls = [], stdout = [], results_area = Empty, expander = None,
     download_button = None\<rparr>"

text \<open>A decoder that rejects the empty file and reads anything else as a one-pixel-high strip.\<close>

definition sample_decoder :: "8 word list \<Rightarrow> image outcome" where
  "sample_decoder b =
     (if b = [] then Raises (Exception ''cannot identify image file'')
      else Returns (Image ''L'' (length b, 1) b))"

text \<open>A remote service where every call fails with the given message.\<close>

definition remote_fails :: "string \<Rightarrow> env" where
  "remote_fails m =
     \<lparr>generate_content = (\<lambda>ep rq. Raises (Exception m)), Image_open = sample_decoder\<rparr>"

text \<open>A remote service where every call succeeds with the given text.\<close>

definition remote_answers :: "string \<Rightarrow> env" where
  "remote_answers t =
     \<lparr>generate_content = (\<lambda>ep rq. Returns \<lparr>resolve = Returns (), text_of = Returns t\<rparr>),
      Image_open = sample_decoder\<rparr>"

definition empty_image :: image where
  "empty_image = Image ''RGB'' (0, 0) []"

section \<open>Facts about the string operations\<close>

lemma str_in_sublist: "str_in pat s = sublist pat s"
  by (induction s) (simp_all add: sublist_Cons_right)

lemma dropWhile_all: "(\<forall>x \<in> set (dropWhile P xs). P x) \<longleftrightarrow> (\<forall>x \<in> set xs. P x)"
proof
  assume a: "\<forall>x \<in> set (dropWhile P xs). P x"
  have "dropWhile P xs = []"
  proof (rule ccontr)
    assume n: "dropWhile P xs \<noteq> []"
    then have "\<not> P (hd (dropWhile P xs))" by (rule hd_dropWhile)
    moreover from n have "hd (dropWhile P xs) \<in> set (dropWhile P xs)" by simp
    ultimately show False using a by blast
  qed
  then show "\<forall>x \<in> set xs. P x" by (simp add: dropWhile_eq_Nil_conv)
next
  assume "\<forall>x \<in> set xs. P x"
  then show "\<forall>x \<in> set (dropWhile P xs). P x" by (auto dest: set_dropWhileD)
qed

lemma strip_empty_iff: "strip s = [] \<longleftrightarrow> (\<forall>c \<in> set s. isspace c)"
  by (simp add: strip_def dropWhile_eq_Nil_conv dropWhile_all)

section \<open>Facts about analyze\_content\<close>

lemma error_message_unfold:
  \<open>error_message m = ''An error occurred during analysis: '' @ m @
     (if sublist ''API key not valid'' m then
        ''
Please check if your GOOGLE_API_KEY is configured correctly.''
      else if icontains ''content has been blocked'' m \<or> icontains ''safety settings'' m then
        ''
The input may have triggered Google's safety filters.''
      else if sublist ''Resource has been exhausted'' m \<or> icontains ''quota'' m then
        ''
API quota likely exceeded. Check your usage limits.''
      else if sublist ''Deadline exceeded'' m then
        ''
The request timed out. Try again later.''
      else [])\<close>
proof -
  have l1: "lower ''content has been blocked'' = ''content has been blocked''" by code_simp
  have l2: "lower ''safety settings'' = ''safety settings''" by code_simp
  have l3: "lower ''quota'' = ''quota''" by code_simp
  show ?thesis
    unfolding error_message_def icontains_def l1 l2 l3 str_in_sublist Let_def
    by simp
qed

lemma analyze_caught:
  "try_body e prompt ci w = (Raises (Exception m), w1) \<Longrightarrow>
   analyze_content e prompt ci w =
     (Returns (''Error during analysis. Details: '' @ error_message m),
      w1\<lparr>stdout := stdout w1 @ [''Gemini API Error: '' @ m]\<rparr>)"
  by (simp add: analyze_content_def)

lemma analyze_returned:
  "try_body e prompt ci w = (Returns t, w1) \<Longrightarrow> analyze_content e prompt ci w = (Returns t, w1)"
  by (simp add: analyze_content_def)

lemma analyze_never_raises_Exception:
  "fst (analyze_content e prompt ci w) \<noteq> Raises (Exception x)"
  by (simp add: analyze_content_def split: prod.splits outcome.splits raised.splits)

lemma calls_analyze:
  "calls (snd (analyze_content e prompt ci w)) = calls (snd (try_body e prompt ci w))"
  by (simp add: analyze_content_def split: prod.splits outcome.splits raised.splits)

lemma try_body_text:
  "strip s \<noteq> [] \<Longrightarrow> try_body e prompt (PyStr s) w =
     (case generate_content e text_model \<lparr>contents = [PyStr prompt, PyStr s], stream = None\<rparr> of
        Raises x \<Rightarrow> Raises x | Returns r \<Rightarrow> text_of r,
      w\<lparr>calls := calls w @ [(text_model, \<lparr>contents = [PyStr prompt, PyStr s], stream = None\<rparr>)]\<rparr>)"
  by (simp add: Let_def split: outcome.splits)

lemma try_body_image:
  "try_body e prompt (PyImage img) w =
     (case generate_content e vision_model
             \<lparr>contents = [PyStr prompt, PyImage img], stream = Some False\<rparr> of
        Raises x \<Rightarrow> Raises x
      | Returns r \<Rightarrow> (case resolve r of Raises x \<Rightarrow> Raises x | Returns u \<Rightarrow> text_of r),
      w\<lparr>calls := calls w @
         [(vision_model, \<lparr>contents = [PyStr prompt, PyImage img], stream = Some False\<rparr>)]\<rparr>)"
  by (simp add: Let_def split: outcome.splits)

section \<open>Failures of the model call\<close>

text \<open>
  C1 (as amended). When the \<open>try\<close> block raises an \<open>Exception\<close> with message \<open>m\<close>,
  \<open>analyze_content\<close> returns the two fixed prefixes, then \<open>m\<close>, then at most one hint, the
  first whose test holds:
  the credential hint when \<open>m\<close> contains "API key not valid" in exactly that spelling;
  the content-policy hint when \<open>m\<close> contains "content has been blocked" or "safety settings"
  in any letter case;
  the quota hint when \<open>m\<close> contains "Resource has been exhausted" in exactly that spelling,
  or "quota" in any letter case;
  the timeout hint when \<open>m\<close> contains "Deadline exceeded" in exactly that spelling;
  and no hint when no test holds.
\<close>

theorem hint_follows_code_patterns:
  assumes "try_body e prompt content_input w = (Raises (Exception m), w1)"
  shows \<open>fst (analyze_content e prompt content_input w) =
     Returns (''Error during analysis. Details: An error occurred during analysis: '' @ m @
       (if sublist ''API key not valid'' m then
          ''
Please check if your GOOGLE_API_KEY is configured correctly.''
        else if icontains ''content has been blocked'' m \<or> icontains ''safety settings'' m then
          ''
The input may have triggered Google's safety filters.''
        else if sublist ''Resource has been exhausted'' m \<or> icontains ''quota'' m then
          ''
API quota likely exceeded. Check your usage limits.''
        else if sublist ''Deadline exceeded'' m then
          ''
The request timed out. Try again later.''
        else []))\<close>
  unfolding analyze_caught [OF assms] error_message_unfold by simp

theorem hint_follows_code_patterns_witness:
  \<open>try_body (remote_fails ''429 Quota exceeded'') ''p'' (PyStr ''smoke'') fresh =
     (Raises (Exception ''429 Quota exceeded''),
      fresh\<lparr>calls := [(text_model, \<lparr>contents = [PyStr ''p'', PyStr ''smoke''], stream = None\<rparr>)]\<rparr>)
   \<and> fst (analyze_content (remote_fails ''429 Quota exceeded'') ''p'' (PyStr ''smoke'') fresh) =
     Returns ''Error during analysis. Details: An error occurred during analysis: 429 Quota exceeded
API quota likely exceeded. Check your usage limits.''\<close>
proof -
  have h: "try_body (remote_fails ''429 Quota exceeded'') ''p'' (PyStr ''smoke'') fresh =
     (Raises (Exception ''429 Quota exceeded''),
      fresh\<lparr>calls := [(text_model, \<lparr>contents = [PyStr ''p'', PyStr ''smoke''], stream = None\<rparr>)]\<rparr>)"
    by code_simp
  have c1: "\<not> sublist ''API key not valid'' ''429 Quota exceeded''" by code_simp
  have c2: "\<not> icontains ''content has been blocked'' ''429 Quota exceeded''" by code_simp
  have c3: "\<not> icontains ''safety settings'' ''429 Quota exceeded''" by code_simp
  have c4: "icontains ''quota'' ''429 Quota exceeded''" by code_simp
  show ?thesis
    using h hint_follows_code_patterns [OF h] c1 c2 c3 c4 by simp
qed

text \<open>
  Matching all four patterns without regard to letter case is not what the code does: for
  the message "api key not valid" it appends no hint, where \<open>claimed_hint\<close> gives the
  credential hint.
\<close>

theorem hint_case_insensitive_counterexample:
  \<open>try_body (remote_fails ''api key not valid'') ''p'' (PyStr ''smoke'') fresh =
     (Raises (Exception ''api key not valid''),
      fresh\<lparr>calls := [(text_model, \<lparr>contents = [PyStr ''p'', PyStr ''smoke''], stream = None\<rparr>)]\<rparr>)
   \<and> claimed_hint ''api key not valid'' = ''
Please check if your GOOGLE_API_KEY is configured correctly.''
   \<and> fst (analyze_content (remote_fails ''api key not valid'') ''p'' (PyStr ''smoke'') fresh) =
       Returns ''Error during analysis. Details: An error occurred during analysis: api key not valid''
   \<and> fst (analyze_content (remote_fails ''api key not valid'') ''p'' (PyStr ''smoke'') fresh) \<noteq>
       Returns (''Error during analysis. Details: An error occurred during analysis: '' @
                ''api key not valid'' @ claimed_hint ''api key not valid'')\<close>
  by code_simp

text \<open>
  C2. \<open>analyze_content\<close> never hands an \<open>Exception\<close> to its caller, whatever the payload and
  the remote service do. When the model call itself raises an \<open>Exception\<close> with message \<open>m\<close>,
  for a text payload or for an image payload, the function returns a string: the generic
  prefix, then \<open>m\<close>, then the hint, if any. For the message "Deadline exceeded while waiting"
  the hint is the timeout hint.
\<close>

theorem failures_are_caught:
  \<open>(\<forall>x. fst (analyze_content e prompt content_input w) \<noteq> Raises (Exception x))
   \<and> (strip s \<noteq> []
        \<and> generate_content e text_model \<lparr>contents = [PyStr prompt, PyStr s], stream = None\<rparr>
            = Raises (Exception m)
      \<longrightarrow> (\<exists>hint.
            fst (analyze_content e prompt (PyStr s) w) =
              Returns (''Error during analysis. Details: An error occurred during analysis: ''
                       @ m @ hint)
            \<and> (m = ''Deadline exceeded while waiting'' \<longrightarrow> hint = ''
The request timed out. Try again later.'')))
   \<and> (generate_content e vision_model
          \<lparr>contents = [PyStr prompt, PyImage img], stream = Some False\<rparr> = Raises (Exception m)
      \<longrightarrow> (\<exists>hint.
            fst (analyze_content e prompt (PyImage img) w) =
              Returns (''Error during analysis. Details: An error occurred during analysis: ''
                       @ m @ hint)
            \<and> (m = ''Deadline exceeded while waiting'' \<longrightarrow> hint = ''
The request timed out. Try again later.'')))\<close>
proof -
  have deadline: \<open>error_message ''Deadline exceeded while waiting'' =
      ''An error occurred during analysis: '' @ ''Deadline exceeded while waiting'' @ ''
The request timed out. Try again later.''\<close>
    by code_simp
  have shape: \<open>\<exists>hint. ''Error during analysis. Details: '' @ error_message m =
      ''Error during analysis. Details: An error occurred during analysis: '' @ m @ hint
      \<and> (m = ''Deadline exceeded while waiting'' \<longrightarrow> hint = ''
The request timed out. Try again later.'')\<close>
  proof (cases "m = ''Deadline exceeded while waiting''")
    case True
    show ?thesis unfolding True deadline by simp
  next
    case False
    then show ?thesis unfolding error_message_unfold by simp
  qed
  have caught: "\<exists>hint. fst (analyze_content e prompt ci w) =
        Returns (''Error during analysis. Details: An error occurred during analysis: '' @ m @ hint)
        \<and> (m = ''Deadline exceeded while waiting'' \<longrightarrow> hint = ''
The request timed out. Try again later.'')"
    if "fst (try_body e prompt ci w) = Raises (Exception m)" for ci
  proof -
    from that have "try_body e prompt ci w = (Raises (Exception m), snd (try_body e prompt ci w))"
      by (metis prod.collapse)
    from analyze_caught [OF this] shape show ?thesis by simp
  qed
  have text_case: "fst (try_body e prompt (PyStr s) w) = Raises (Exception m)"
    if "strip s \<noteq> []"
      and "generate_content e text_model \<lparr>contents = [PyStr prompt, PyStr s], stream = None\<rparr>
            = Raises (Exception m)"
    using that by (simp add: try_body_text)
  have image_case: "fst (try_body e prompt (PyImage img) w) = Raises (Exception m)"
    if "generate_content e vision_model
          \<lparr>contents = [PyStr prompt, PyImage img], stream = Some False\<rparr> = Raises (Exception m)"
    using that by (simp add: try_body_image)
  show ?thesis
    using analyze_never_raises_Exception caught text_case image_case by blast
qed

theorem failures_are_caught_witness:
  \<open>fst (analyze_content (remote_fails ''Deadline exceeded while waiting'') ''p'' (PyStr ''smoke'') fresh) =
     Returns ''Error during analysis. Details: An error occurred during analysis: Deadline exceeded while waiting
The request timed out. Try again later.''
   \<and> fst (analyze_content (remote_fails ''Deadline exceeded while waiting'') ''p'' (PyImage empty_image) fresh) =
     Returns ''Error during analysis. Details: An error occurred during analysis: Deadline exceeded while waiting
The request timed out. Try again later.''\<close>
proof -
  have h1: "strip ''smoke'' \<noteq> []" by code_simp
  have h2: "generate_content (remote_fails ''Deadline exceeded while waiting'') ep rq =
      Raises (Exception ''Deadline exceeded while waiting'')" for ep rq
    by (simp add: remote_fails_def)
  show ?thesis
    using h1 h2
      failures_are_caught [of "remote_fails ''Deadline exceeded while waiting''" "''p''"
        "PyStr ''smoke''" fresh "''smoke''" "''Deadline exceeded while waiting''" empty_image]
    by auto
qed

section \<open>Dispatch on the payload\<close>

text \<open>
  C3. For a string payload whose stripped content is not empty, \<open>analyze_content\<close> adds
  exactly one call to the record of calls: a call to the text handle with the list of the
  instruction and the payload, without the \<open>stream\<close> keyword. No call made by it goes to the
  vision handle. When that call returns a response whose \<open>text\<close> is \<open>t\<close>, the result is \<open>t\<close>
  and nothing is printed.
\<close>

theorem text_payload_uses_text_model:
  assumes "strip s \<noteq> []"
  shows "calls (snd (analyze_content e prompt (PyStr s) w)) =
           calls w @ [(text_model, \<lparr>contents = [PyStr prompt, PyStr s], stream = None\<rparr>)]
       \<and> (\<forall>c \<in> set (drop (length (calls w)) (calls (snd (analyze_content e prompt (PyStr s) w)))).
             fst c \<noteq> vision_model)
       \<and> (generate_content e text_model \<lparr>contents = [PyStr prompt, PyStr s], stream = None\<rparr>
             = Returns r \<and> text_of r = Returns t
           \<longrightarrow> analyze_content e prompt (PyStr s) w =
                 (Returns t,
                  w\<lparr>calls := calls w @
                     [(text_model, \<lparr>contents = [PyStr prompt, PyStr s], stream = None\<rparr>)]\<rparr>))"
proof -
  have sent: "calls (snd (analyze_content e prompt (PyStr s) w)) =
      calls w @ [(text_model, \<lparr>contents = [PyStr prompt, PyStr s], stream = None\<rparr>)]"
    using assms by (simp add: calls_analyze try_body_text del: try_body.simps)
  have answered: "analyze_content e prompt (PyStr s) w =
      (Returns t,
       w\<lparr>calls := calls w @ [(text_model, \<lparr>contents = [PyStr prompt, PyStr s], stream = None\<rparr>)]\<rparr>)"
    if "generate_content e text_model \<lparr>contents = [PyStr prompt, PyStr s], stream = None\<rparr>
          = Returns r" and "text_of r = Returns t"
    using assms that by (intro analyze_returned) (simp add: try_body_text)
  show ?thesis
    using answered by (simp add: sent)
qed

theorem text_payload_uses_text_model_witness:
  "strip ''Factory dumping chemical waste into river'' \<noteq> []
   \<and> analyze_content (remote_answers ''YES. Waste is dumped.'') ''p''
        (PyStr ''Factory dumping chemical waste into river'') fresh =
       (Returns ''YES. Waste is dumped.'',
        fresh\<lparr>calls := [(text_model,
           \<lparr>contents = [PyStr ''p'', PyStr ''Factory dumping chemical waste into river''],
            stream = None\<rparr>)]\<rparr>)"
proof -
  have h: "strip ''Factory dumping chemical waste into river'' \<noteq> []" by code_simp
  have g: "generate_content (remote_answers ''YES. Waste is dumped.'') text_model
             \<lparr>contents = [PyStr ''p'', PyStr ''Factory dumping chemical waste into river''],
              stream = None\<rparr>
           = Returns \<lparr>resolve = Returns (), text_of = Returns ''YES. Waste is dumped.''\<rparr>"
    by (simp add: remote_answers_def)
  show ?thesis
    using h g
      text_payload_uses_text_model [OF h, of "remote_answers ''YES. Waste is dumped.''" "''p''"
        fresh "\<lparr>resolve = Returns (), text_of = Returns ''YES. Waste is dumped.''\<rparr>"
        "''YES. Waste is dumped.''"]
    by (simp add: fresh_def)
qed

text \<open>
  C4. For an image payload, \<open>analyze_content\<close> adds exactly one call to the record of calls:
  a call to the vision handle with the list of the instruction and the image, and with
  \<open>stream=False\<close>. No call made by it goes to the text handle. When that call returns a
  response that resolves and whose \<open>text\<close> is \<open>t\<close>, the result is \<open>t\<close> and nothing is printed.
\<close>

theorem image_payload_uses_vision_model:
  "calls (snd (analyze_content e prompt (PyImage img) w)) =
     calls w @ [(vision_model, \<lparr>contents = [PyStr prompt, PyImage img], stream = Some False\<rparr>)]
   \<and> (\<forall>c \<in> set (drop (length (calls w)) (calls (snd (analyze_content e prompt (PyImage img) w)))).
         fst c \<noteq> text_model)
   \<and> (generate_content e vision_model
         \<lparr>contents = [PyStr prompt, PyImage img], stream = Some False\<rparr> = Returns r
       \<and> resolve r = Returns () \<and> text_of r = Returns t
       \<longrightarrow> analyze_content e prompt (PyImage img) w =
             (Returns t,
              w\<lparr>calls := calls w @
                 [(vision_model,
                   \<lparr>contents = [PyStr prompt, PyImage img], stream = Some False\<rparr>)]\<rparr>))"
proof -
  have sent: "calls (snd (analyze_content e prompt (PyImage img) w)) =
      calls w @ [(vision_model, \<lparr>contents = [PyStr prompt, PyImage img], stream = Some False\<rparr>)]"
    by (simp add: calls_analyze try_body_image del: try_body.simps)
  have answered: "analyze_content e prompt (PyImage img) w =
      (Returns t,
       w\<lparr>calls := calls w @
          [(vision_model, \<lparr>contents = [PyStr prompt, PyImage img], stream = Some False\<rparr>)]\<rparr>)"
    if "generate_content e vision_model
          \<lparr>contents = [PyStr prompt, PyImage img], stream = Some False\<rparr> = Returns r"
      and "resolve r = Returns ()" and "text_of r = Returns t"
    using that by (intro analyze_returned) (simp add: try_body_image)
  show ?thesis
    using answered by (simp add: sent)
qed

theorem image_payload_uses_vision_model_witness:
  "analyze_content (remote_answers ''NO. Nothing is wrong.'') ''p''
        (PyImage (Image ''L'' (2, 1) [0, 255])) fresh =
       (Returns ''NO. Nothing is wrong.'',
        fresh\<lparr>calls := [(vision_model,
           \<lparr>contents = [PyStr ''p'', PyImage (Image ''L'' (2, 1) [0, 255])],
            stream = Some False\<rparr>)]\<rparr>)"
proof -
  have g: "generate_content (remote_answers ''NO. Nothing is wrong.'') vision_model
             \<lparr>contents = [PyStr ''p'', PyImage (Image ''L'' (2, 1) [0, 255])],
              stream = Some False\<rparr>
           = Returns \<lparr>resolve = Returns (), text_of = Returns ''NO. Nothing is wrong.''\<rparr>"
    by (simp add: remote_answers_def)
  show ?thesis
    using g
      image_payload_uses_vision_model [of "remote_answers ''NO. Nothing is wrong.''" "''p''"
        "Image ''L'' (2, 1) [0, 255]" fresh
        "\<lparr>resolve = Returns (), text_of = Returns ''NO. Nothing is wrong.''\<rparr>"
        "''NO. Nothing is wrong.''"]
    by (simp add: fresh_def)
qed

text \<open>
  C5. For a string payload that is empty or consists of whitespace only,
  \<open>analyze_content\<close> returns the fixed string "Error: Please provide some text to analyze."
  and leaves the state as it was: no call to either handle, nothing printed.
\<close>

theorem blank_text_rejected_locally:
  assumes "\<forall>c \<in> set s. isspace c"
  shows "analyze_content e prompt (PyStr s) w =
           (Returns ''Error: Please provide some text to analyze.'', w)"
proof -
  from assms have "strip s = []" by (simp add: strip_empty_iff)
  then have "try_body e prompt (PyStr s) w =
      (Returns ''Error: Please provide some text to analyze.'', w)"
    by simp
  then show ?thesis by (rule analyze_returned)
qed

theorem blank_text_rejected_locally_witness:
  "list_all isspace [CHR '' '', CHR 0x09, CHR 0x0A]
   \<and> analyze_content (remote_answers ''unused'') ''p'' (PyStr [CHR '' '', CHR 0x09, CHR 0x0A]) fresh =
       (Returns ''Error: Please provide some text to analyze.'', fresh)
   \<and> analyze_content (remote_answers ''unused'') ''p'' (PyStr []) fresh =
       (Returns ''Error: Please provide some text to analyze.'', fresh)"
proof -
  have h: "\<forall>c \<in> set [CHR '' '', CHR 0x09, CHR 0x0A]. isspace c"
    by (simp add: isspace_def)
  have h0: "\<forall>c \<in> set []. isspace c" by simp
  show ?thesis
    using h blank_text_rejected_locally [OF h] blank_text_rejected_locally [OF h0]
    by (simp add: list_all_iff)
qed

text \<open>
  C6. For a payload that is neither a string nor an image, \<open>analyze_content\<close> returns the
  fixed string "Error: Invalid input type provided." and leaves the state as it was: no
  call to either handle, nothing printed.
\<close>

theorem other_payload_rejected_locally:
  assumes "\<not> is_str content_input" and "\<not> is_Image content_input"
  shows "analyze_content e prompt content_input w =
           (Returns ''Error: Invalid input type provided.'', w)"
proof -
  from assms have "try_body e prompt content_input w =
      (Returns ''Error: Invalid input type provided.'', w)"
    by (cases content_input) simp_all
  then show ?thesis by (rule analyze_returned)
qed

theorem other_payload_rejected_locally_witness:
  "\<not> is_str (PyBytes [0x89, 0x50]) \<and> \<not> is_Image (PyBytes [0x89, 0x50])
   \<and> analyze_content (remote_answers ''unused'') ''p'' (PyBytes [0x89, 0x50]) fresh =
       (Returns ''Error: Invalid input type provided.'', fresh)
   \<and> analyze_content (remote_answers ''unused'') ''p'' PyNone fresh =
       (Returns ''Error: Invalid input type provided.'', fresh)"
proof -
  have a: "\<not> is_str (PyBytes [0x89, 0x50])" and b: "\<not> is_Image (PyBytes [0x89, 0x50])"
    by simp_all
  have c: "\<not> is_str PyNone" and d: "\<not> is_Image PyNone"
    by simp_all
  show ?thesis
    using a b other_payload_rejected_locally [OF a b] other_payload_rejected_locally [OF c d]
    by simp
qed

text \<open>
  C10. An image payload is never turned away locally. Whatever the image holds, an image
  of size zero included, and whatever the remote service answers, \<open>analyze_content\<close>
  records one more call, that call goes to the vision handle and carries the image, and
  the state after the call differs from the state before.
\<close>

theorem image_payload_never_rejected_locally:
  "length (calls (snd (analyze_content e prompt (PyImage img) w))) = Suc (length (calls w))
   \<and> fst (last (calls (snd (analyze_content e prompt (PyImage img) w)))) = vision_model
   \<and> PyImage img \<in> set (contents (snd (last (calls (snd (analyze_content e prompt (PyImage img) w))))))
   \<and> snd (analyze_content e prompt (PyImage img) w) \<noteq> w"
proof -
  have sent: "calls (snd (analyze_content e prompt (PyImage img) w)) =
      calls w @ [(vision_model, \<lparr>contents = [PyStr prompt, PyImage img], stream = Some False\<rparr>)]"
    by (simp add: calls_analyze try_body_image del: try_body.simps)
  have "calls (snd (analyze_content e prompt (PyImage img) w)) \<noteq> calls w"
    unfolding sent by simp
  then have "snd (analyze_content e prompt (PyImage img) w) \<noteq> w"
    by auto
  then show ?thesis
    by (simp add: sent)
qed

theorem image_payload_never_rejected_locally_witness:
  "calls (snd (analyze_content (remote_answers ''NO.'') ''p'' (PyImage empty_image) fresh)) \<noteq> []
   \<and> fst (last (calls (snd (analyze_content (remote_answers ''NO.'') ''p'' (PyImage empty_image) fresh))))
       = vision_model"
  using image_payload_never_rejected_locally
          [of "remote_answers ''NO.''" "''p''" empty_image fresh]
  by (auto simp: fresh_def)

section \<open>The two handles\<close>

text \<open>
  C9. The vision handle and the text handle are constructed from the same model
  identifier, 'gemini-1.5-flash'. As configured clients they are equal, so every call that
  \<open>analyze_content\<close> makes, through either handle, goes to that one model configuration.
\<close>

theorem both_handles_same_model:
  "configured vision_model = configured text_model
   \<and> (\<forall>ep. configured ep = GenerativeModel ''gemini-1.5-flash'')
   \<and> (\<forall>ep. model_name (configured ep) = ''gemini-1.5-flash'')
   \<and> (\<forall>c \<in> set (drop (length (calls w)) (calls (snd (analyze_content e prompt payload w)))).
         configured (fst c) = GenerativeModel ''gemini-1.5-flash'')"
proof -
  have one: "configured ep = GenerativeModel ''gemini-1.5-flash''" for ep
    by (cases ep) simp_all
  then have name: "model_name (configured ep) = ''gemini-1.5-flash''" for ep
    by (simp add: GenerativeModel_def)
  show ?thesis
    using one name by simp
qed

theorem both_handles_same_model_witness:
  "calls (snd (analyze_content (remote_answers ''NO.'') ''p'' (PyStr ''smoke'') fresh)) =
     [(text_model, \<lparr>contents = [PyStr ''p'', PyStr ''smoke''], stream = None\<rparr>)]
   \<and> configured (fst (last
         (calls (snd (analyze_content (remote_answers ''NO.'') ''p'' (PyStr ''smoke'') fresh)))))
       = configured vision_model
   \<and> model_name (configured text_model) = ''gemini-1.5-flash''"
proof -
  have sent: "calls (snd (analyze_content (remote_answers ''NO.'') ''p'' (PyStr ''smoke'') fresh)) =
     [(text_model, \<lparr>contents = [PyStr ''p'', PyStr ''smoke''], stream = None\<rparr>)]"
    by code_simp
  show ?thesis
    using sent both_handles_same_model [of fresh "remote_answers ''NO.''" "''p''" "PyStr ''smoke''"]
    by (simp add: GenerativeModel_def)
qed

section \<open>Facts about the page script\<close>

lemma select_input_upload:
  "uploaded_image sub = Some b \<Longrightarrow>
   select_input e sub w =
     (case Image_open e b of
        Returns img \<Rightarrow>
          (Inr (PyImage img, Some ''image''),
           w\<lparr>results_area := Info ''Analyzing uploaded image... Please wait.''\<rparr>)
      | Raises (Exception m) \<Rightarrow>
          (Inl Stopped, w\<lparr>results_area := Error (''Error processing image: '' @ m)\<rparr>)
      | Raises (BaseOnly m) \<Rightarrow> (Inl (Aborted (BaseOnly m)), w))"
  by (simp add: select_input_def)

lemma handler_calls_decoded:
  assumes "analyze_button sub" and "uploaded_image sub = Some b"
    and "Image_open e b = Returns img"
  shows "calls (snd (analyze_button_handler e sub w)) =
           calls w @ [(vision_model,
             \<lparr>contents = [PyStr SDG9_PROMPT, PyImage img], stream = Some False\<rparr>)]"
proof -
  define w1 where "w1 = w\<lparr>results_area := Info ''Analyzing uploaded image... Please wait.'',
    expander := None, download_button := None\<rparr>"
  have sel: "select_input e sub (w\<lparr>results_area := Empty, expander := None, download_button := None\<rparr>)
      = (Inr (PyImage img, Some ''image''), w1)"
    using assms by (simp add: select_input_upload w1_def)
  have "calls (snd (analyze_button_handler e sub w)) =
      calls (snd (analyze_content e SDG9_PROMPT (PyImage img) w1))"
    using assms(1) sel
    by (simp add: analyze_button_handler_def Let_def split: prod.splits outcome.splits)
  also have "\<dots> = calls w1 @ [(vision_model,
             \<lparr>contents = [PyStr SDG9_PROMPT, PyImage img], stream = Some False\<rparr>)]"
    by (simp add: calls_analyze try_body_image del: try_body.simps)
  finally show ?thesis by (simp add: w1_def)
qed

lemma handler_calls_undecoded:
  assumes "analyze_button sub" and "uploaded_image sub = Some b"
    and "Image_open e b = Raises x"
  shows "calls (snd (analyze_button_handler e sub w)) = calls w"
  using assms
  by (cases x) (simp_all add: analyze_button_handler_def select_input_upload Let_def)

lemma handler_ignores_text:
  assumes "uploaded_image sub = Some b"
  shows "analyze_button_handler e (sub\<lparr>input_text := t\<rparr>) w = analyze_button_handler e sub w"
proof -
  have "select_input e (sub\<lparr>input_text := t\<rparr>) w' = select_input e sub w'" for w'
    using assms by (simp add: select_input_def)
  then show ?thesis
    by (simp add: analyze_button_handler_def Let_def)
qed

text \<open>
  C7. When the button is pressed and a file has been uploaded, the text box plays no part:
  the run is the same whatever the text box holds. The uploaded file is decoded; when that
  gives an image, the one call the run makes goes to the vision handle and carries the
  instruction and that image, and when decoding fails the run makes no call at all. In
  neither case does a call of the run go to the text handle.
\<close>

theorem uploaded_image_takes_priority:
  assumes "analyze_button sub" and "uploaded_image sub = Some b"
  shows "analyze_button_handler e (sub\<lparr>input_text := t\<rparr>) w = analyze_button_handler e sub w
       \<and> calls (snd (analyze_button_handler e sub w)) =
           calls w @
           (case Image_open e b of
              Returns img \<Rightarrow>
                [(vision_model,
                  \<lparr>contents = [PyStr SDG9_PROMPT, PyImage img], stream = Some False\<rparr>)]
            | Raises x \<Rightarrow> [])
       \<and> (\<forall>c \<in> set (drop (length (calls w)) (calls (snd (analyze_button_handler e sub w)))).
             fst c \<noteq> text_model)"
proof (cases "Image_open e b")
  case (Returns img)
  show ?thesis
    using handler_ignores_text [OF assms(2)] handler_calls_decoded [OF assms Returns]
    by (simp add: Returns)
next
  case (Raises x)
  show ?thesis
    using handler_ignores_text [OF assms(2)] handler_calls_undecoded [OF assms Raises]
    by (simp add: Raises)
qed

theorem uploaded_image_takes_priority_witness:
  "analyze_button_handler (remote_answers ''NO.'')
       \<lparr>analyze_button = True, input_text = ''Factory dumping waste'',
        uploaded_image = Some [0x89, 0x50, 0x4E, 0x47]\<rparr> fresh
     = analyze_button_handler (remote_answers ''NO.'')
       \<lparr>analyze_button = True, input_text = ''ignored'',
        uploaded_image = Some [0x89, 0x50, 0x4E, 0x47]\<rparr> fresh
   \<and> calls (snd (analyze_button_handler (remote_answers ''NO.'')
       \<lparr>analyze_button = True, input_text = ''ignored'',
        uploaded_image = Some [0x89, 0x50, 0x4E, 0x47]\<rparr> fresh))
     = [(vision_model,
         \<lparr>contents = [PyStr SDG9_PROMPT, PyImage (Image ''L'' (4, 1) [0x89, 0x50, 0x4E, 0x47])],
          stream = Some False\<rparr>)]
   \<and> calls (snd (analyze_button_handler (remote_answers ''NO.'')
       \<lparr>analyze_button = True, input_text = ''ignored'', uploaded_image = Some []\<rparr> fresh))
     = []"
proof -
  have d1: "Image_open (remote_answers ''NO.'') [0x89, 0x50, 0x4E, 0x47] =
      Returns (Image ''L'' (4, 1) [0x89, 0x50, 0x4E, 0x47])"
    by (simp add: remote_answers_def sample_decoder_def)
  have d2: "Image_open (remote_answers ''NO.'') [] =
      Raises (Exception ''cannot identify image file'')"
    by (simp add: remote_answers_def sample_decoder_def)
  show ?thesis
    using d1 d2
      uploaded_image_takes_priority
        [of "\<lparr>analyze_button = True, input_text = ''ignored'',
              uploaded_image = Some [0x89, 0x50, 0x4E, 0x47]\<rparr>" "[0x89, 0x50, 0x4E, 0x47]"
            "remote_answers ''NO.''" "''Factory dumping waste''" fresh]
      uploaded_image_takes_priority
        [of "\<lparr>analyze_button = True, input_text = ''ignored'', uploaded_image = Some []\<rparr>" "[]"
            "remote_answers ''NO.''" "''x''" fresh]
    by (simp add: fresh_def)
qed

lemma try_body_page:
  "results_area (snd (try_body e prompt ci w)) = results_area w
   \<and> download_button (snd (try_body e prompt ci w)) = download_button w"
  by (cases ci) (simp_all add: Let_def split: outcome.splits)

lemma analyze_content_page:
  "results_area (snd (analyze_content e prompt ci w)) = results_area w
   \<and> download_button (snd (analyze_content e prompt ci w)) = download_button w"
  using try_body_page [of e prompt ci w]
  by (auto simp: analyze_content_def split: prod.splits outcome.splits raised.splits)

lemma select_input_page:
  "download_button (snd (select_input e sub w)) = download_button w
   \<and> results_area (snd (select_input e sub w)) \<noteq> Markdown t"
  if "results_area w = Empty"
  using that
  by (simp add: select_input_def split: option.splits outcome.splits raised.splits)

lemma handler_page:
  "(\<exists>ci w1 res w2.
      analyze_content e SDG9_PROMPT ci w1 = (Returns res, w2)
      \<and> results_area (snd (analyze_button_handler e sub w)) = Markdown res
      \<and> download_button (snd (analyze_button_handler e sub w)) =
          Some \<lparr>label = ''Download Analysis Result'', data = res,
                file_name = ''analysis_result.txt'', mime = ''text/plain''\<rparr>)
   \<or> (download_button (snd (analyze_button_handler e sub w)) = None
      \<and> (\<forall>t. results_area (snd (analyze_button_handler e sub w)) \<noteq> Markdown t))"
proof (cases "analyze_button sub")
  case False
  then show ?thesis
    by (simp add: analyze_button_handler_def Let_def)
next
  case True
  define w0 where "w0 = w\<lparr>results_area := Empty, expander := None, download_button := None\<rparr>"
  obtain sel w1 where sel: "select_input e sub w0 = (sel, w1)"
    by (cases "select_input e sub w0")
  have page1: "download_button w1 = None" "\<And>t. results_area w1 \<noteq> Markdown t"
    using select_input_page [of w0 e sub] sel by (simp_all add: w0_def)
  have run: "analyze_button_handler e sub w =
      (case sel of
         Inl halt \<Rightarrow> (halt, w1)
       | Inr (analysis_input, input_type) \<Rightarrow>
           if truthy analysis_input then
             case analyze_content e SDG9_PROMPT analysis_input w1 of
               (Raises x, w2) \<Rightarrow> (Aborted x, w2)
             | (Returns analysis_result, w2) \<Rightarrow>
                 (Finished,
                  (if input_type = Some ''image'' \<and> truthy analysis_input
                   then w2\<lparr>results_area := Markdown analysis_result,
                           expander := Some (analysis_input, ''Analyzed Image'')\<rparr>
                   else w2\<lparr>results_area := Markdown analysis_result\<rparr>)
                  \<lparr>download_button := Some
                     \<lparr>label = ''Download Analysis Result'', data = analysis_result,
                      file_name = ''analysis_result.txt'', mime = ''text/plain''\<rparr>\<rparr>)
           else (Finished, w1))"
    using True sel
    by (simp add: analyze_button_handler_def Let_def w0_def
             split: sum.splits prod.splits outcome.splits)
  show ?thesis
  proof (cases sel)
    case (Inl halt)
    then show ?thesis using page1 by (simp add: run)
  next
    case (Inr chosen)
    obtain ci ty where chosen: "chosen = (ci, ty)" by (cases chosen)
    show ?thesis
    proof (cases "truthy ci")
      case False
      then show ?thesis using page1 by (simp add: run Inr chosen)
    next
      case True
      obtain r w2 where ac: "analyze_content e SDG9_PROMPT ci w1 = (r, w2)"
        by (cases "analyze_content e SDG9_PROMPT ci w1")
      have page2: "download_button w2 = None" "\<And>t. results_area w2 \<noteq> Markdown t"
        using analyze_content_page [of e SDG9_PROMPT ci w1] ac page1 by simp_all
      show ?thesis
      proof (cases r)
        case (Raises x)
        then show ?thesis using page2 by (simp add: run Inr chosen True ac)
      next
        case (Returns res)
        have "results_area (snd (analyze_button_handler e sub w)) = Markdown res
          \<and> download_button (snd (analyze_button_handler e sub w)) =
              Some \<lparr>label = ''Download Analysis Result'', data = res,
                    file_name = ''analysis_result.txt'', mime = ''text/plain''\<rparr>"
          by (simp add: run Inr chosen True ac Returns)
        with ac Returns show ?thesis by blast
      qed
    qed
  qed
qed

text \<open>
  C8. After any run of the script, the download button and the results panel go together
  and hold the same string. When a download is offered, its data is the string that the
  results panel renders, that string is what \<open>analyze_content\<close> returned in this run, and the
  file is offered as \<open>analysis_result.txt\<close> with type \<open>text/plain\<close>. When the results panel
  renders an analysis result, a download with that same string is offered.
\<close>

theorem download_equals_result_shown:
  "(\<forall>d. download_button (snd (analyze_button_handler e sub w)) = Some d \<longrightarrow>
        results_area (snd (analyze_button_handler e sub w)) = Markdown (data d)
        \<and> file_name d = ''analysis_result.txt'' \<and> mime d = ''text/plain''
        \<and> (\<exists>ci w1. fst (analyze_content e SDG9_PROMPT ci w1) = Returns (data d)))
   \<and> (\<forall>t. results_area (snd (analyze_button_handler e sub w)) = Markdown t \<longrightarrow>
        (\<exists>d. download_button (snd (analyze_button_handler e sub w)) = Some d \<and> data d = t))"
proof -
  from handler_page [of e sub w] show ?thesis
  proof (elim disjE exE conjE)
    fix ci w1 res w2
    assume ac: "analyze_content e SDG9_PROMPT ci w1 = (Returns res, w2)"
      and shown: "results_area (snd (analyze_button_handler e sub w)) = Markdown res"
      and offered: "download_button (snd (analyze_button_handler e sub w)) =
          Some \<lparr>label = ''Download Analysis Result'', data = res,
                file_name = ''analysis_result.txt'', mime = ''text/plain''\<rparr>"
    from ac have "fst (analyze_content e SDG9_PROMPT ci w1) = Returns res" by simp
    then have "\<exists>ci w1. fst (analyze_content e SDG9_PROMPT ci w1) = Returns res" by blast
    then show ?thesis by (simp add: shown offered)
  next
    assume "download_button (snd (analyze_button_handler e sub w)) = None"
      and "\<forall>t. results_area (snd (analyze_button_handler e sub w)) \<noteq> Markdown t"
    then show ?thesis by simp
  qed
qed

theorem download_equals_result_shown_witness:
  "download_button (snd (analyze_button_handler (remote_answers ''YES. Waste is dumped.'')
       \<lparr>analyze_button = True, input_text = ''Factory dumping chemical waste into river'',
        uploaded_image = None\<rparr> fresh))
     = Some \<lparr>label = ''Download Analysis Result'', data = ''YES. Waste is dumped.'',
             file_name = ''analysis_result.txt'', mime = ''text/plain''\<rparr>
   \<and> results_area (snd (analyze_button_handler (remote_answers ''YES. Waste is dumped.'')
       \<lparr>analyze_button = True, input_text = ''Factory dumping chemical waste into river'',
        uploaded_image = None\<rparr> fresh))
     = Markdown ''YES. Waste is dumped.''"
proof -
  have offered: "download_button (snd (analyze_button_handler (remote_answers ''YES. Waste is dumped.'')
       \<lparr>analyze_button = True, input_text = ''Factory dumping chemical waste into river'',
        uploaded_image = None\<rparr> fresh))
     = Some \<lparr>label = ''Download Analysis Result'', data = ''YES. Waste is dumped.'',
             file_name = ''analysis_result.txt'', mime = ''text/plain''\<rparr>"
    by code_simp
  show ?thesis
    using offered
      download_equals_result_shown [of "remote_answers ''YES. Waste is dumped.''"
        "\<lparr>analyze_button = True, input_text = ''Factory dumping chemical waste into river'',
          uploaded_image = None\<rparr>" fresh]
    by simp
qed

end
